theory Spec2Isabelle
  imports Main "HOL-Library.Word"
begin

unbundle bit_operations_syntax

section \<open>Channel routing and SPI bus arbitration of simar-sw\<close>

text \<open>
  A shallow embedding of \<^verbatim>\<open>src/spi/common.c\<close>, \<^verbatim>\<open>src/i2c/common.c\<close> and the routing
  prefix of \<^verbatim>\<open>src/bme280/common/common.c\<close>. The process-wide C globals, the memory-mapped
  GPIO registers and the SPI controller's active profile are the fields of one record
  that every operation takes and returns. Each system call and each register write is
  appended to a trace; the result of a system call is read from a table of outcomes, so a theorem
  that quantifies over the state holds for every behaviour of the devices. A dereference
  of a NULL register-bank pointer ends the process: operations that can reach one return
  \<open>None\<close> there.
\<close>

subsection \<open>Data\<close>

type_synonym u8 = "8 word"
type_synonym u32 = "32 word"

text \<open>
  \<^verbatim>\<open>gpio_t\<close> of \<^verbatim>\<open>spi/common.h\<close>. The pointer \<^verbatim>\<open>base\<close> is either NULL (\<open>None\<close>) or the
  mapping of register bank \<open>b\<close> (\<open>Some b\<close>).
\<close>

record gpio_t =
  pin :: int
  base :: "nat option"
  number :: int

text \<open>The answer of the outside world to one system call: its return value and, for a
  transfer, the bytes the device sent back.\<close>

record outcome =
  ret :: int
  rxd :: "u8 list"

datatype event =
    DevMemOpen
  | Mmap nat u32
  | MmioWrite nat nat u32
  | DevOpen string
  | IoctlWrMode u8
  | IoctlRdMode
  | IoctlWrBits u8
  | IoctlRdBits
  | IoctlWrSpeed u32
  | IoctlRdSpeed
  | IoctlMessage int "u8 list" u32
  | FdWrite "u8 list"
  | FdRead int

text \<open>
  \<^item> \<open>gpio_base\<close>: \<^verbatim>\<open>gpio_base[4]\<close>, \<open>True\<close> where the bank is mapped (non-NULL);
  \<^item> \<open>cfg_bits\<close>, \<open>cfg_speed\<close>, \<open>cfg_delay\<close>, \<open>cfg_mode\<close>, \<open>fd\<close>: the globals
    \<^verbatim>\<open>_bits\<close>, \<^verbatim>\<open>_speed\<close>, \<^verbatim>\<open>_delay\<close>, \<^verbatim>\<open>_mode\<close>, \<^verbatim>\<open>fd\<close> of \<^verbatim>\<open>spi/common.c\<close>;
  \<^item> \<open>cs_pin\<close>, \<open>ds_pin\<close>, \<open>mux0\<close>, \<open>mux1\<close>, \<open>pins_configured\<close>, \<open>ext_addr\<close>: the
    globals of the same names;
  \<^item> \<open>hw_mode\<close>, \<open>hw_bits\<close>, \<open>hw_speed\<close>: the profile the SPI controller is set to;
  \<^item> \<open>oe\<close>, \<open>dataout\<close>: the output-enable and data-out registers of each GPIO bank
    (an \<open>oe\<close> bit of 0 makes the pin an output);
  \<^item> \<open>trace\<close>: the system calls and register writes made so far;
  \<^item> \<open>world\<close>: the outcome of the system call made when the trace has a given length.
\<close>

record state =
  gpio_base :: "nat \<Rightarrow> bool"
  cfg_bits :: u32
  cfg_speed :: u32
  cfg_delay :: u32
  cfg_mode :: u32
  fd :: int
  cs_pin :: gpio_t
  ds_pin :: gpio_t
  mux0 :: gpio_t
  mux1 :: gpio_t
  pins_configured :: int
  ext_addr :: u8
  hw_mode :: u8
  hw_bits :: u8
  hw_speed :: u32
  oe :: "nat \<Rightarrow> u32"
  dataout :: "nat \<Rightarrow> u32"
  trace :: "event list"
  world :: "nat \<Rightarrow> outcome"

subsection \<open>Constants of \<^verbatim>\<open>spi/common.h\<close>\<close>

definition gpio_addresses :: "nat \<Rightarrow> u32" where
  "gpio_addresses b =
     (if b = 0 then 0x44E07000 else if b = 1 then 0x4804C000
      else if b = 2 then 0x481AC000 else 0x481AF000)"

definition MMIO_SUCCESS :: int where "MMIO_SUCCESS = 0"
definition MMIO_ERROR_ARGUMENT :: int where "MMIO_ERROR_ARGUMENT = - 1"
definition MMIO_ERROR_DEVMEM :: int where "MMIO_ERROR_DEVMEM = - 2"
definition MMIO_ERROR_MMAP :: int where "MMIO_ERROR_MMAP = - 3"

definition MMIO_OE_ADDR :: nat where "MMIO_OE_ADDR = 0x134"
definition MMIO_GPIO_DATAOUT :: nat where "MMIO_GPIO_DATAOUT = 0x13C"
definition MMIO_GPIO_CLEARDATAOUT :: nat where "MMIO_GPIO_CLEARDATAOUT = 0x190"
definition MMIO_GPIO_SETDATAOUT :: nat where "MMIO_GPIO_SETDATAOUT = 0x194"

definition P9_14 :: int where "P9_14 = 50"
definition P9_15 :: int where "P9_15 = 48"
definition P9_16 :: int where "P9_16 = 51"
definition P9_17 :: int where "P9_17 = 5"

definition SPI_MODE_3 :: u32 where "SPI_MODE_3 = 3"
definition mod_bits :: u32 where "mod_bits = 8"
definition mod_mode :: u32 where "mod_mode = SPI_MODE_3"

subsection \<open>System calls and register writes\<close>

text \<open>A system call: the event is recorded and the outside world answers.\<close>

definition dev_call :: "event \<Rightarrow> state \<Rightarrow> outcome \<times> state" where
  "dev_call e s = (world s (length (trace s)), s\<lparr>trace := trace s @ [e]\<rparr>)"

text \<open>
  A 32-bit store into the mapping of bank \<open>b\<close> at a byte offset. A store to the
  set-data-out register raises the data-out bits written as 1, a store to the
  clear-data-out register lowers them (write-1-to-act registers of the GPIO controller).
\<close>

definition mmio_write :: "nat \<Rightarrow> nat \<Rightarrow> u32 \<Rightarrow> state \<Rightarrow> state" where
  "mmio_write b off v s =
     (let s' = s\<lparr>trace := trace s @ [MmioWrite b off v]\<rparr> in
      if off = MMIO_OE_ADDR then s'\<lparr>oe := (oe s)(b := v)\<rparr>
      else if off = MMIO_GPIO_SETDATAOUT then s'\<lparr>dataout := (dataout s)(b := dataout s b OR v)\<rparr>
      else if off = MMIO_GPIO_CLEARDATAOUT then
        s'\<lparr>dataout := (dataout s)(b := dataout s b AND NOT v)\<rparr>
      else if off = MMIO_GPIO_DATAOUT then s'\<lparr>dataout := (dataout s)(b := v)\<rparr>
      else s')"

text \<open>\<^verbatim>\<open>1 << gpio.number\<close>: defined for a shift count in 0..31 only.\<close>

definition pin_mask :: "gpio_t \<Rightarrow> u32 option" where
  "pin_mask gpio =
     (if 0 \<le> number gpio \<and> number gpio \<le> 31 then Some (push_bit (nat (number gpio)) 1)
      else None)"

definition mmio_set_output :: "gpio_t \<Rightarrow> state \<Rightarrow> state option" where
  "mmio_set_output gpio s =
     (case base gpio of None \<Rightarrow> None
      | Some b \<Rightarrow>
          (case pin_mask gpio of None \<Rightarrow> None
           | Some m \<Rightarrow> Some (mmio_write b MMIO_OE_ADDR (oe s b AND (0xFFFFFFFF XOR m)) s)))"

definition mmio_set_input :: "gpio_t \<Rightarrow> state \<Rightarrow> state option" where
  "mmio_set_input gpio s =
     (case base gpio of None \<Rightarrow> None
      | Some b \<Rightarrow>
          (case pin_mask gpio of None \<Rightarrow> None
           | Some m \<Rightarrow> Some (mmio_write b MMIO_OE_ADDR (oe s b OR m) s)))"

definition mmio_set_high :: "gpio_t \<Rightarrow> state \<Rightarrow> state option" where
  "mmio_set_high gpio s =
     (case base gpio of None \<Rightarrow> None
      | Some b \<Rightarrow>
          (case pin_mask gpio of None \<Rightarrow> None
           | Some m \<Rightarrow> Some (mmio_write b MMIO_GPIO_SETDATAOUT m s)))"

definition mmio_set_low :: "gpio_t \<Rightarrow> state \<Rightarrow> state option" where
  "mmio_set_low gpio s =
     (case base gpio of None \<Rightarrow> None
      | Some b \<Rightarrow>
          (case pin_mask gpio of None \<Rightarrow> None
           | Some m \<Rightarrow> Some (mmio_write b MMIO_GPIO_CLEARDATAOUT m s)))"

subsection \<open>Register-bank mapper: \<^verbatim>\<open>mmio_get_gpio\<close>\<close>

text \<open>C's \<^verbatim>\<open>/\<close> and \<^verbatim>\<open>%\<close> on \<^verbatim>\<open>int\<close>: the quotient is truncated towards zero and the
  remainder has the sign of the dividend.\<close>

definition c_div :: "int \<Rightarrow> int \<Rightarrow> int" where
  "c_div a b = sgn a * sgn b * (\<bar>a\<bar> div \<bar>b\<bar>)"

definition c_mod :: "int \<Rightarrow> int \<Rightarrow> int" where
  "c_mod a b = a - b * c_div a b"

text \<open>
  \<^verbatim>\<open>int mmio_get_gpio(gpio_t* gpio)\<close>. The pointer is the address of one of the global
  pins at every call site, so the structure comes in by value and goes out with the
  result. \<^verbatim>\<open>memset\<close> clears \<^verbatim>\<open>pin\<close> when the pin resolves. \<^verbatim>\<open>open\<close> fails with -1 and
  \<^verbatim>\<open>mmap\<close> with \<^verbatim>\<open>MAP_FAILED\<close>, which is the pointer -1; a failed mapping is stored as NULL.
\<close>

definition mmio_get_gpio :: "gpio_t \<Rightarrow> state \<Rightarrow> int \<times> gpio_t \<times> state" where
  "mmio_get_gpio gpio s =
     (let b = c_div (pin gpio) 32; n = c_mod (pin gpio) 32 in
      if b < 0 \<or> b > 3 then (MMIO_ERROR_ARGUMENT, gpio, s)
      else if n < 0 \<or> n > 31 then (MMIO_ERROR_ARGUMENT, gpio, s)
      else if gpio_base s (nat b) then
        (MMIO_SUCCESS, \<lparr>pin = 0, base = Some (nat b), number = n\<rparr>, s)
      else
        (let (mfd, s1) = dev_call DevMemOpen s in
         if ret mfd = - 1 then (MMIO_ERROR_DEVMEM, gpio, s1)
         else
           (let (m, s2) = dev_call (Mmap (nat b) (gpio_addresses (nat b))) s1 in
            if ret m = - 1 then (MMIO_ERROR_MMAP, gpio, s2)
            else (MMIO_SUCCESS, \<lparr>pin = 0, base = Some (nat b), number = n\<rparr>,
                  s2\<lparr>gpio_base := (gpio_base s2)(nat b := True)\<rparr>))))"

subsection \<open>Extender board address: \<^verbatim>\<open>set_ext_addr\<close>\<close>

definition set_ext_addr :: "u8 \<Rightarrow> state \<Rightarrow> int \<times> state" where
  "set_ext_addr addr s =
     (if addr > 15 \<or> addr = 0 then (- 1, s) else (0, s\<lparr>ext_addr := addr\<rparr>))"

subsection \<open>SPI transport\<close>

text \<open>
  The profile ioctls. The code ignores their results everywhere, also in \<^verbatim>\<open>spi_open\<close>;
  the controller is taken to accept the value written. \<^verbatim>\<open>SPI_IOC_WR_MODE\<close> and
  \<^verbatim>\<open>SPI_IOC_WR_BITS_PER_WORD\<close> read one byte at the address they are given, which is
  the low byte of the \<^verbatim>\<open>int\<close> on the little-endian target.
\<close>

definition ioctl_wr_mode :: "u32 \<Rightarrow> state \<Rightarrow> state" where
  "ioctl_wr_mode v s = s\<lparr>hw_mode := ucast v, trace := trace s @ [IoctlWrMode (ucast v)]\<rparr>"

definition ioctl_wr_bits :: "u32 \<Rightarrow> state \<Rightarrow> state" where
  "ioctl_wr_bits v s = s\<lparr>hw_bits := ucast v, trace := trace s @ [IoctlWrBits (ucast v)]\<rparr>"

definition ioctl_wr_speed :: "u32 \<Rightarrow> state \<Rightarrow> state" where
  "ioctl_wr_speed v s = s\<lparr>hw_speed := v, trace := trace s @ [IoctlWrSpeed v]\<rparr>"

text \<open>
  The block that opens \<^verbatim>\<open>spi_mod_comm\<close>, \<^verbatim>\<open>write_data\<close> and \<^verbatim>\<open>read_data\<close>:
  \<^verbatim>\<open>if (_mode != SPI_MODE_3) ioctl(fd, SPI_IOC_WR_MODE, &mod_mode);
  if (_bits != 8) ioctl(fd, SPI_IOC_WR_BITS_PER_WORD, &mod_bits);\<close>
\<close>

definition enter_module_profile :: "state \<Rightarrow> state" where
  "enter_module_profile s =
     (let s1 = (if cfg_mode s \<noteq> SPI_MODE_3 then ioctl_wr_mode mod_mode s else s) in
      if cfg_bits s1 \<noteq> 8 then ioctl_wr_bits mod_bits s1 else s1)"

text \<open>
  The block that closes them:
  \<^verbatim>\<open>if (_mode != SPI_MODE_3) ioctl(fd, SPI_IOC_WR_MODE, &_mode);
  if (_bits != 8) ioctl(fd, SPI_IOC_WR_BITS_PER_WORD, &_bits);\<close>
\<close>

definition leave_module_profile :: "state \<Rightarrow> state" where
  "leave_module_profile s =
     (let s1 = (if cfg_mode s \<noteq> SPI_MODE_3 then ioctl_wr_mode (cfg_mode s) s else s) in
      if cfg_bits s1 \<noteq> 8 then ioctl_wr_bits (cfg_bits s1) s1 else s1)"

text \<open>The receive buffer after a transfer of \<open>len\<close> bytes: untouched when the call
  failed, else overwritten with what the device sent.\<close>

definition rx_after :: "outcome \<Rightarrow> int \<Rightarrow> u8 list \<Rightarrow> u8 list" where
  "rx_after r len rx =
     (if ret r < 0 then rx
      else take (nat len) (rxd r) @ drop (length (take (nat len) (rxd r))) rx)"

text \<open>\<^verbatim>\<open>spi_transfer\<close>: one \<^verbatim>\<open>SPI_IOC_MESSAGE(len)\<close> ioctl at the active profile, with
  \<^verbatim>\<open>bits_per_word = _bits\<close>. The result is the status and the receive buffer.\<close>

definition spi_transfer :: "u8 list \<Rightarrow> u8 list \<Rightarrow> int \<Rightarrow> state \<Rightarrow> int \<times> u8 list \<times> state" where
  "spi_transfer tx rx len s =
     (let (r, s1) = dev_call (IoctlMessage len (take (nat len) tx) (cfg_bits s)) s in
      (if ret r < 0 then - 1 else 0, rx_after r len rx, s1))"

text \<open>\<^verbatim>\<open>calculate_parity\<close>, on a 32-bit \<^verbatim>\<open>int\<close>; \<^verbatim>\<open>>>\<close> on a signed value is the arithmetic
  shift.\<close>

definition calculate_parity :: "u32 \<Rightarrow> u32" where
  "calculate_parity x =
     (let y = x XOR signed_drop_bit 1 x;
          y = y XOR signed_drop_bit 2 y;
          y = y XOR signed_drop_bit 4 y;
          y = y XOR signed_drop_bit 8 y;
          y = y XOR signed_drop_bit 16 y
      in y AND 1)"

text \<open>\<^verbatim>\<open>spi_mod_comm\<close>: the module-profile scope around one \<^verbatim>\<open>SPI_IOC_MESSAGE(1)\<close> ioctl,
  with the \<^verbatim>\<open>ds_pin\<close> low during the transfer.\<close>

definition spi_mod_comm :: "u8 list \<Rightarrow> u8 list \<Rightarrow> int \<Rightarrow> state \<Rightarrow> (int \<times> u8 list \<times> state) option" where
  "spi_mod_comm tx rx len s =
     (let s1 = enter_module_profile s in
      case mmio_set_low (ds_pin s1) s1 of None \<Rightarrow> None
      | Some s2 \<Rightarrow>
          (let (r, s3) = dev_call (IoctlMessage 1 (take (nat len) tx) mod_bits) s2 in
           case mmio_set_high (ds_pin s3) s3 of None \<Rightarrow> None
           | Some s4 \<Rightarrow>
               Some (if ret r < 0 then - 1 else 0, rx_after r len rx, leave_module_profile s4)))"

text \<open>
  The byte \<^verbatim>\<open>msg_c[0]\<close> of \<^verbatim>\<open>select_module\<close>: \<^verbatim>\<open>msg\<close> is an \<^verbatim>\<open>unsigned long\<close> (32 bits on
  the 32-bit ARM target), and the initialiser of the \<^verbatim>\<open>char\<close> array keeps its low byte.
\<close>

definition select_module_frame :: "u32 \<Rightarrow> u32 \<Rightarrow> u8" where
  "select_module_frame address module =
     (let parity = calculate_parity address;
          msg = push_bit 4 parity OR address;
          msg = push_bit 3 msg OR module
      in ucast msg)"

definition select_module :: "u32 \<Rightarrow> u32 \<Rightarrow> state \<Rightarrow> (int \<times> state) option" where
  "select_module address module s =
     (let msg_c = [select_module_frame address module] in
      case spi_mod_comm msg_c msg_c 1 s of None \<Rightarrow> None
      | Some (r, rx, s') \<Rightarrow> Some (r, s'))"

definition transfer_module :: "u8 list \<Rightarrow> int \<Rightarrow> state \<Rightarrow> (int \<times> u8 list \<times> state) option" where
  "transfer_module data len s = spi_mod_comm data data len s"

text \<open>\<^verbatim>\<open>write_data\<close>: the result of \<^verbatim>\<open>select_module\<close> is dropped.\<close>

definition write_data :: "u32 \<Rightarrow> u8 list \<Rightarrow> int \<Rightarrow> state \<Rightarrow> (int \<times> state) option" where
  "write_data address data len s =
     (case select_module address 1 s of None \<Rightarrow> None
      | Some (r0, s0) \<Rightarrow>
     (let s1 = enter_module_profile s0 in
      case mmio_set_high (cs_pin s1) s1 of None \<Rightarrow> None
      | Some s2 \<Rightarrow>
     (case mmio_set_low (cs_pin s2) s2 of None \<Rightarrow> None
      | Some s3 \<Rightarrow>
     (case mmio_set_high (cs_pin s3) s3 of None \<Rightarrow> None
      | Some s4 \<Rightarrow>
     (let (w, s5) = dev_call (FdWrite (take (nat len) data)) s4 in
      case mmio_set_low (cs_pin s5) s5 of None \<Rightarrow> None
      | Some s6 \<Rightarrow> Some (ret w, leave_module_profile s6))))))"

text \<open>\<^verbatim>\<open>read_data\<close>: \<^verbatim>\<open>dummy_data\<close> is both the transmit and the receive buffer of the two
  dummy transfers. The result is \<^verbatim>\<open>read\<close>'s, with the buffer it filled.\<close>

definition read_data :: "u32 \<Rightarrow> u8 list \<Rightarrow> int \<Rightarrow> state \<Rightarrow> (int \<times> u8 list \<times> state) option" where
  "read_data address rx len s =
     (let dummy_data = [0] in
      case select_module address 2 s of None \<Rightarrow> None
      | Some (r0, s0) \<Rightarrow>
     (let (r1, dummy_data, s1) = spi_transfer dummy_data dummy_data 1 s0 in
      case select_module address 3 s1 of None \<Rightarrow> None
      | Some (r2, s2) \<Rightarrow>
     (let (r3, dummy_data, s3) = spi_transfer dummy_data dummy_data 1 s2;
          s4 = enter_module_profile s3;
          (r, s5) = dev_call (FdRead len) s4
      in Some (ret r, rx_after r (ret r) rx, leave_module_profile s5))))"

text \<open>
  \<^verbatim>\<open>spi_open\<close>. Each parameter is written to the controller and read back through the
  caller's variable; the read of the mode stores one byte into the 32-bit variable.
\<close>

definition spi_open :: "string \<Rightarrow> u32 \<Rightarrow> u8 \<Rightarrow> u32 \<Rightarrow> state \<Rightarrow> (int \<times> state) option" where
  "spi_open device mode bits speed s =
     (let (f, s) = dev_call (DevOpen device) s;
          s = s\<lparr>fd := ret f\<rparr>;
          s = ioctl_wr_mode mode s;
          s = s\<lparr>trace := trace s @ [IoctlRdMode]\<rparr>;
          mode = (mode AND NOT 0xFF) OR ucast (hw_mode s);
          s = ioctl_wr_bits (ucast bits) s;
          s = s\<lparr>trace := trace s @ [IoctlRdBits]\<rparr>;
          bits = hw_bits s;
          s = ioctl_wr_speed speed s;
          s = s\<lparr>trace := trace s @ [IoctlRdSpeed]\<rparr>;
          speed = hw_speed s;
          s = s\<lparr>cfg_bits := ucast bits, cfg_speed := speed, cfg_mode := mode\<rparr>;
          (rc, g, s) = mmio_get_gpio (cs_pin s) s;
          s = s\<lparr>cs_pin := g\<rparr>;
          (rd, g, s) = mmio_get_gpio (ds_pin s) s;
          s = s\<lparr>ds_pin := g\<rparr>
      in case mmio_set_output (cs_pin s) s of None \<Rightarrow> None
         | Some s \<Rightarrow>
             (case mmio_set_output (ds_pin s) s of None \<Rightarrow> None
              | Some s \<Rightarrow> Some (fd s, s)))"

subsection \<open>Direct demultiplexer and extender selection (\<^verbatim>\<open>i2c/common.c\<close>)\<close>

text \<open>
  \<^verbatim>\<open>i2c/common.c\<close> calls the register-bank mapper and the pin driver as
  \<^verbatim>\<open>bbb_mmio_get_gpio\<close>, \<^verbatim>\<open>bbb_mmio_set_output\<close>, \<^verbatim>\<open>bbb_mmio_set_high\<close> and
  \<^verbatim>\<open>bbb_mmio_set_low\<close>; they are the functions \<^verbatim>\<open>mmio_*\<close> of \<^verbatim>\<open>spi/common.c\<close>.
\<close>

definition direct_mux :: "u8 \<Rightarrow> state \<Rightarrow> state option" where
  "direct_mux ident s =
     (case (if drop_bit 0 ident AND 1 \<noteq> 0 then mmio_set_high (mux0 s) s
            else mmio_set_low (mux0 s) s) of
        None \<Rightarrow> None
      | Some s1 \<Rightarrow>
          (if drop_bit 1 ident AND 1 \<noteq> 0 then mmio_set_high (mux1 s1) s1
           else mmio_set_low (mux1 s1) s1))"

text \<open>\<^verbatim>\<open>direct_ext_mux\<close>: the byte \<^verbatim>\<open>rx\<close> points to is allocated, never read and freed.\<close>

definition direct_ext_mux :: "u8 \<Rightarrow> state \<Rightarrow> state option" where
  "direct_ext_mux ident s =
     (let ext_mux_id = [ident] in
      case select_module (ucast (ext_addr s)) 2 s of None \<Rightarrow> None
      | Some (r0, s1) \<Rightarrow>
          (let (r1, rx, s2) = spi_transfer ext_mux_id [0] 1 s1 in Some s2))"

definition unselect_i2c_extender :: "state \<Rightarrow> state option" where
  "unselect_i2c_extender s =
     (case spi_mod_comm [0] [0] 1 s of None \<Rightarrow> None | Some (r, rx, s') \<Rightarrow> Some s')"

text \<open>
  \<^verbatim>\<open>configure_mux\<close>. \<^verbatim>\<open>rslt\<close> is an \<^verbatim>\<open>int8_t\<close> that collects, with \<^verbatim>\<open>|=\<close>, results that are
  0, -1, -2 or -3: no value leaves the range of the type. \<^verbatim>\<open>pins_configured = !rslt\<close>.
\<close>

definition configure_mux :: "state \<Rightarrow> (int \<times> state) option" where
  "configure_mux s =
     (let rslt = 0 in
      if pins_configured s = 0 then
        (let (r, g, s) = mmio_get_gpio (mux0 s) s;
             s = s\<lparr>mux0 := g\<rparr>;
             rslt = rslt OR r
         in case mmio_set_output (mux0 s) s of None \<Rightarrow> None
            | Some s \<Rightarrow>
                (let (r, g, s) = mmio_get_gpio (mux1 s) s;
                     s = s\<lparr>mux1 := g\<rparr>;
                     rslt = rslt OR r
                 in case mmio_set_output (mux0 s) s of None \<Rightarrow> None
                    | Some s \<Rightarrow>
                        Some (rslt, s\<lparr>pins_configured := (if rslt = 0 then 1 else 0)\<rparr>)))
      else Some (rslt, s))"

subsection \<open>Channel router (\<^verbatim>\<open>bme280/common/common.c\<close>)\<close>

text \<open>
  Modelled from the spec: the field \<^verbatim>\<open>ext_mux_id\<close> of \<^verbatim>\<open>struct identifier\<close>, which
  \<^verbatim>\<open>bme_read\<close> and \<^verbatim>\<open>bme_init\<close> read and the header under \<^verbatim>\<open>src/i2c\<close> does not declare
  (it declares \<^verbatim>\<open>mux_id\<close> and \<^verbatim>\<open>fd\<close>). It is a signed 8-bit value, read with \<open>sint\<close>; a
  negative value means that there is no extender hop.
\<close>

record identifier_t =
  mux_id :: u8
  ext_mux_id :: u8
  ident_fd :: u8

text \<open>
  The routing that \<^verbatim>\<open>bme_read\<close> performs before it calls the sensor library (the same
  two statements stand in \<^verbatim>\<open>bme_init\<close>):
  \<^verbatim>\<open>direct_mux(id.mux_id); if (id.ext_mux_id >= 0) direct_ext_mux(id.ext_mux_id);\<close>
\<close>

definition route :: "identifier_t \<Rightarrow> state \<Rightarrow> state option" where
  "route ident s =
     (case direct_mux (mux_id ident) s of None \<Rightarrow> None
      | Some s1 \<Rightarrow>
          (if 0 \<le> sint (ext_mux_id ident) then direct_ext_mux (ext_mux_id ident) s1
           else Some s1))"

subsection \<open>The process at start\<close>

text \<open>The C initialisers of the globals, no bank mapped, and the GPIO registers at their
  reset values (every pin an input). The outcomes of the system calls are a parameter.\<close>

definition boot :: "(nat \<Rightarrow> outcome) \<Rightarrow> state" where
  "boot w =
     \<lparr>gpio_base = (\<lambda>b. False), cfg_bits = 0, cfg_speed = 0, cfg_delay = 0, cfg_mode = 0,
      fd = 0,
      cs_pin = \<lparr>pin = P9_17, base = None, number = 0\<rparr>,
      ds_pin = \<lparr>pin = P9_14, base = None, number = 0\<rparr>,
      mux0 = \<lparr>pin = P9_15, base = None, number = 0\<rparr>,
      mux1 = \<lparr>pin = P9_16, base = None, number = 0\<rparr>,
      pins_configured = 0, ext_addr = - 1,
      hw_mode = 0, hw_bits = 8, hw_speed = 0,
      oe = (\<lambda>b. 0xFFFFFFFF), dataout = (\<lambda>b. 0),
      trace = [], world = w\<rparr>"

text \<open>A world in which every system call succeeds and every device answers \<open>0x55\<close>.\<close>

definition all_ok :: "nat \<Rightarrow> outcome" where
  "all_ok n = \<lparr>ret = 3, rxd = [0x55]\<rparr>"

text \<open>A world in which every system call fails.\<close>

definition all_fail :: "nat \<Rightarrow> outcome" where
  "all_fail n = \<lparr>ret = - 1, rxd = []\<rparr>"

text \<open>The process after \<^verbatim>\<open>spi_open("/dev/spidev1.0", 0, 16, 1000000)\<close>, \<^verbatim>\<open>configure_mux()\<close>
  and \<^verbatim>\<open>set_ext_addr(3)\<close> in that world.\<close>

definition demo :: state where
  "demo =
     \<lparr>gpio_base = (\<lambda>b. False)(0 := True, 1 := True),
      cfg_bits = 16, cfg_speed = 1000000, cfg_delay = 0, cfg_mode = 0, fd = 3,
      cs_pin = \<lparr>pin = 0, base = Some 0, number = 5\<rparr>,
      ds_pin = \<lparr>pin = 0, base = Some 1, number = 18\<rparr>,
      mux0 = \<lparr>pin = 0, base = Some 1, number = 16\<rparr>,
      mux1 = \<lparr>pin = 0, base = Some 1, number = 19\<rparr>,
      pins_configured = 1, ext_addr = 3,
      hw_mode = 0, hw_bits = 16, hw_speed = 1000000,
      oe = (\<lambda>b. 0xFFFFFFFF)(0 := 0xFFFFFFDF, 1 := 0xFFFAFFFF), dataout = (\<lambda>b. 0),
      trace =
        [DevOpen ''/dev/spidev1.0'', IoctlWrMode 0, IoctlRdMode, IoctlWrBits 16, IoctlRdBits,
         IoctlWrSpeed 1000000, IoctlRdSpeed, DevMemOpen, Mmap 0 0x44E07000, DevMemOpen,
         Mmap 1 0x4804C000, MmioWrite 0 0x134 0xFFFFFFDF, MmioWrite 1 0x134 0xFFFBFFFF,
         MmioWrite 1 0x134 0xFFFAFFFF, MmioWrite 1 0x134 0xFFFAFFFF],
      world = all_ok\<rparr>"

subsection \<open>Vocabulary of the statements\<close>

text \<open>A pin that \<^verbatim>\<open>mmio_get_gpio\<close> has resolved.\<close>

definition pin_ok :: "gpio_t \<Rightarrow> bool" where
  "pin_ok g = (base g \<noteq> None \<and> 0 \<le> number g \<and> number g \<le> 31)"

definition pin_bank :: "gpio_t \<Rightarrow> nat" where
  "pin_bank g = (case base g of None \<Rightarrow> 0 | Some b \<Rightarrow> b)"

definition pin_bit :: "gpio_t \<Rightarrow> u32" where
  "pin_bit g = push_bit (nat (number g)) 1"

definition set_high_event :: "gpio_t \<Rightarrow> event" where
  "set_high_event g = MmioWrite (pin_bank g) MMIO_GPIO_SETDATAOUT (pin_bit g)"

definition set_low_event :: "gpio_t \<Rightarrow> event" where
  "set_low_event g = MmioWrite (pin_bank g) MMIO_GPIO_CLEARDATAOUT (pin_bit g)"

text \<open>The mux pins as a successful \<^verbatim>\<open>configure_mux\<close> leaves them (P9_15 is bit 16 and
  P9_16 is bit 19 of bank 1), and as the C initialisers leave them.\<close>

definition mux_ready :: "state \<Rightarrow> bool" where
  "mux_ready s =
     (mux0 s = \<lparr>pin = 0, base = Some 1, number = 16\<rparr> \<and>
      mux1 s = \<lparr>pin = 0, base = Some 1, number = 19\<rparr>)"

definition mux_fresh :: "state \<Rightarrow> bool" where
  "mux_fresh s =
     (mux0 s = \<lparr>pin = P9_15, base = None, number = 0\<rparr> \<and>
      mux1 s = \<lparr>pin = P9_16, base = None, number = 0\<rparr>)"

definition pin_is_output :: "state \<Rightarrow> nat \<Rightarrow> nat \<Rightarrow> bool" where
  "pin_is_output s b n = (\<not> bit (oe s b) n)"

text \<open>The controller is set to the payload profile that \<^verbatim>\<open>spi_open\<close> recorded.\<close>

definition profile_synced :: "state \<Rightarrow> bool" where
  "profile_synced s = (hw_mode s = ucast (cfg_mode s) \<and> hw_bits s = ucast (cfg_bits s))"

text \<open>Bus transfers among the events.\<close>

fun is_transfer :: "event \<Rightarrow> bool" where
  "is_transfer (IoctlMessage n tx b) = True"
| "is_transfer (FdWrite d) = True"
| "is_transfer (FdRead n) = True"
| "is_transfer e = False"

text \<open>The events of the profile switches, and of one \<^verbatim>\<open>spi_mod_comm\<close> that sends \<open>tx\<close>.\<close>

definition enter_events :: "state \<Rightarrow> event list" where
  "enter_events s =
     (if cfg_mode s = SPI_MODE_3 then [] else [IoctlWrMode 3]) @
     (if cfg_bits s = 8 then [] else [IoctlWrBits 8])"

definition leave_events :: "state \<Rightarrow> event list" where
  "leave_events s =
     (if cfg_mode s = SPI_MODE_3 then [] else [IoctlWrMode (ucast (cfg_mode s))]) @
     (if cfg_bits s = 8 then [] else [IoctlWrBits (ucast (cfg_bits s))])"

definition mod_comm_events :: "state \<Rightarrow> u8 list \<Rightarrow> event list" where
  "mod_comm_events s tx =
     enter_events s @
     [set_low_event (ds_pin s), IoctlMessage 1 tx mod_bits, set_high_event (ds_pin s)] @
     leave_events s"

text \<open>
  The reading of a frame by the extender board, and the even-parity bit of the low four
  bits of a number (1 when an odd number of them is set). These four definitions follow
  the words of the specification, its bit layout \<^verbatim>\<open>[parity:1][board_address:4][module:3]\<close>
  and its "even parity over the address nibble"; the code is compared with them.
\<close>

definition frame_module :: "u8 \<Rightarrow> u8" where
  "frame_module f = f AND 7"

definition frame_address :: "u8 \<Rightarrow> u8" where
  "frame_address f = drop_bit 3 f AND 0xF"

definition frame_parity :: "u8 \<Rightarrow> bool" where
  "frame_parity f = bit f 7"

definition even_parity4 :: "nat \<Rightarrow> nat" where
  "even_parity4 n = (n mod 2 + n div 2 mod 2 + n div 4 mod 2 + n div 8 mod 2) mod 2"

section \<open>Properties\<close>

subsection \<open>Small words by cases\<close>

lemma u32_le_15_cases:
  assumes "(a::u32) \<le> 15"
  shows "a \<in> {0, 1, 2, 3, 4, 5, 6, 7, 8, 9, 10, 11, 12, 13, 14, 15}"
proof -
  from assms have "unat a \<le> 15"
    by (simp add: word_le_nat_alt)
  then have "unat a \<in> {0, 1, 2, 3, 4, 5, 6, 7, 8, 9, 10, 11, 12, 13, 14, 15}"
    by simp arith
  then have "of_nat (unat a) \<in>
      ((of_nat ` {0, 1, 2, 3, 4, 5, 6, 7, 8, 9, 10, 11, 12, 13, 14, 15}) :: u32 set)"
    by (rule imageI)
  then show ?thesis by simp
qed

lemma u32_le_7_cases:
  assumes "(m::u32) \<le> 7"
  shows "m \<in> {0, 1, 2, 3, 4, 5, 6, 7}"
proof -
  from assms have "unat m \<le> 7"
    by (simp add: word_le_nat_alt)
  then have "unat m \<in> {0, 1, 2, 3, 4, 5, 6, 7}"
    by simp arith
  then have "of_nat (unat m) \<in> ((of_nat ` {0, 1, 2, 3, 4, 5, 6, 7}) :: u32 set)"
    by (rule imageI)
  then show ?thesis by simp
qed

lemma u8_le_15_cases:
  assumes "(a::u8) \<le> 15"
  shows "a \<in> {0, 1, 2, 3, 4, 5, 6, 7, 8, 9, 10, 11, 12, 13, 14, 15}"
proof -
  from assms have "unat a \<le> 15"
    by (simp add: word_le_nat_alt)
  then have "unat a \<in> {0, 1, 2, 3, 4, 5, 6, 7, 8, 9, 10, 11, 12, 13, 14, 15}"
    by simp arith
  then have "of_nat (unat a) \<in>
      ((of_nat ` {0, 1, 2, 3, 4, 5, 6, 7, 8, 9, 10, 11, 12, 13, 14, 15}) :: u8 set)"
    by (rule imageI)
  then show ?thesis by simp
qed

subsection \<open>Running the operations\<close>

text \<open>The let-bound steps of each operation, composed: the result and the state after it,
  for a state in which the pins it drives are resolved.\<close>

lemma enter_module_profile_eq:
  "enter_module_profile s =
     s\<lparr>hw_mode := (if cfg_mode s = SPI_MODE_3 then hw_mode s else 3),
       hw_bits := (if cfg_bits s = 8 then hw_bits s else 8),
       trace := trace s @ enter_events s\<rparr>"
  by (simp add: enter_module_profile_def enter_events_def ioctl_wr_mode_def ioctl_wr_bits_def
      mod_mode_def mod_bits_def SPI_MODE_3_def Let_def)

lemma leave_module_profile_eq:
  "leave_module_profile s =
     s\<lparr>hw_mode := (if cfg_mode s = SPI_MODE_3 then hw_mode s else ucast (cfg_mode s)),
       hw_bits := (if cfg_bits s = 8 then hw_bits s else ucast (cfg_bits s)),
       trace := trace s @ leave_events s\<rparr>"
  by (simp add: leave_module_profile_def leave_events_def ioctl_wr_mode_def ioctl_wr_bits_def
      Let_def)

lemma mmio_set_low_ok:
  "pin_ok g \<Longrightarrow> mmio_set_low g s =
     Some (s\<lparr>dataout := (dataout s)(pin_bank g := dataout s (pin_bank g) AND NOT (pin_bit g)),
             trace := trace s @ [set_low_event g]\<rparr>)"
  by (auto simp: pin_ok_def mmio_set_low_def pin_mask_def pin_bank_def pin_bit_def mmio_write_def
      set_low_event_def Let_def MMIO_OE_ADDR_def MMIO_GPIO_SETDATAOUT_def
      MMIO_GPIO_CLEARDATAOUT_def)

lemma mmio_set_high_ok:
  "pin_ok g \<Longrightarrow> mmio_set_high g s =
     Some (s\<lparr>dataout := (dataout s)(pin_bank g := dataout s (pin_bank g) OR pin_bit g),
             trace := trace s @ [set_high_event g]\<rparr>)"
  by (auto simp: pin_ok_def mmio_set_high_def pin_mask_def pin_bank_def pin_bit_def mmio_write_def
      set_high_event_def Let_def MMIO_OE_ADDR_def MMIO_GPIO_SETDATAOUT_def
      MMIO_GPIO_CLEARDATAOUT_def)

lemma enter_events_update [simp]:
  "enter_events (s\<lparr>trace := t\<rparr>) = enter_events s"
  "enter_events (s\<lparr>dataout := d\<rparr>) = enter_events s"
  "enter_events (s\<lparr>hw_mode := m\<rparr>) = enter_events s"
  "enter_events (s\<lparr>hw_bits := b\<rparr>) = enter_events s"
  by (simp_all add: enter_events_def)

lemma leave_events_update [simp]:
  "leave_events (s\<lparr>trace := t\<rparr>) = leave_events s"
  "leave_events (s\<lparr>dataout := d\<rparr>) = leave_events s"
  "leave_events (s\<lparr>hw_mode := m\<rparr>) = leave_events s"
  "leave_events (s\<lparr>hw_bits := b\<rparr>) = leave_events s"
  by (simp_all add: leave_events_def)

lemma mod_comm_events_update [simp]:
  "mod_comm_events (s\<lparr>trace := t\<rparr>) tx = mod_comm_events s tx"
  "mod_comm_events (s\<lparr>dataout := d\<rparr>) tx = mod_comm_events s tx"
  "mod_comm_events (s\<lparr>hw_mode := m\<rparr>) tx = mod_comm_events s tx"
  "mod_comm_events (s\<lparr>hw_bits := b\<rparr>) tx = mod_comm_events s tx"
  by (simp_all add: mod_comm_events_def)

lemma no_transfer_in_enter_events [simp]: "filter is_transfer (enter_events s) = []"
  by (simp add: enter_events_def)

lemma no_transfer_in_leave_events [simp]: "filter is_transfer (leave_events s) = []"
  by (simp add: leave_events_def)

lemma one_transfer_in_mod_comm_events [simp]:
  "filter is_transfer (mod_comm_events s tx) = [IoctlMessage 1 tx mod_bits]"
  by (simp add: mod_comm_events_def set_low_event_def set_high_event_def)

lemma spi_mod_comm_run:
  assumes "pin_ok (ds_pin s)"
  shows "spi_mod_comm tx rx len s =
     Some (if ret (world s (Suc (length (trace s) + length (enter_events s)))) < 0 then - 1 else 0,
           rx_after (world s (Suc (length (trace s) + length (enter_events s)))) len rx,
           s\<lparr>hw_mode := (if cfg_mode s = SPI_MODE_3 then hw_mode s else ucast (cfg_mode s)),
             hw_bits := (if cfg_bits s = 8 then hw_bits s else ucast (cfg_bits s)),
             dataout := (dataout s)(pin_bank (ds_pin s) :=
                (dataout s (pin_bank (ds_pin s)) AND NOT (pin_bit (ds_pin s))) OR
                pin_bit (ds_pin s)),
             trace := trace s @ mod_comm_events s (take (nat len) tx)\<rparr>)"
  using assms
  by (simp add: spi_mod_comm_def enter_module_profile_eq leave_module_profile_eq
      mmio_set_low_ok mmio_set_high_ok dev_call_def mod_comm_events_def Let_def leave_events_def)

lemma select_module_run:
  assumes "pin_ok (ds_pin s)"
  shows "select_module address module s =
     Some (if ret (world s (Suc (length (trace s) + length (enter_events s)))) < 0 then - 1 else 0,
           s\<lparr>hw_mode := (if cfg_mode s = SPI_MODE_3 then hw_mode s else ucast (cfg_mode s)),
             hw_bits := (if cfg_bits s = 8 then hw_bits s else ucast (cfg_bits s)),
             dataout := (dataout s)(pin_bank (ds_pin s) :=
                (dataout s (pin_bank (ds_pin s)) AND NOT (pin_bit (ds_pin s))) OR
                pin_bit (ds_pin s)),
             trace := trace s @ mod_comm_events s [select_module_frame address module]\<rparr>)"
  using assms by (simp add: select_module_def spi_mod_comm_run Let_def)

lemma spi_transfer_run:
  "spi_transfer tx rx len s =
     (if ret (world s (length (trace s))) < 0 then - 1 else 0,
      rx_after (world s (length (trace s))) len rx,
      s\<lparr>trace := trace s @ [IoctlMessage len (take (nat len) tx) (cfg_bits s)]\<rparr>)"
  by (simp add: spi_transfer_def dev_call_def)

lemma direct_mux_run:
  assumes "pin_ok (mux0 s)" and "pin_ok (mux1 s)"
  shows "direct_mux i s =
     Some (s\<lparr>dataout :=
               (let d = (dataout s)(pin_bank (mux0 s) :=
                          (if bit i 0 then dataout s (pin_bank (mux0 s)) OR pin_bit (mux0 s)
                           else dataout s (pin_bank (mux0 s)) AND NOT (pin_bit (mux0 s))))
                in d(pin_bank (mux1 s) :=
                          (if bit i 1 then d (pin_bank (mux1 s)) OR pin_bit (mux1 s)
                           else d (pin_bank (mux1 s)) AND NOT (pin_bit (mux1 s))))),
             trace := trace s @
               [if bit i 0 then set_high_event (mux0 s) else set_low_event (mux0 s),
                if bit i 1 then set_high_event (mux1 s) else set_low_event (mux1 s)]\<rparr>)"
  using assms
  by (simp add: direct_mux_def mmio_set_low_ok mmio_set_high_ok Let_def
      bit_iff_and_drop_bit_eq_1 and_one_eq)

text \<open>The module field of a frame is the low three bits of the module value, whatever the
  address; the address field is the address when it fits four bits.\<close>

lemma seven_is_mask: "(7::u8) = mask 3"
  by (simp add: mask_eq_exp_minus_1)

lemma frame_module_select: "frame_module (select_module_frame a m) = ucast m AND 7"
  unfolding frame_module_def select_module_frame_def Let_def seven_is_mask
  by (rule bit_word_eqI) (auto simp add: bit_simps)

lemma frame_module_123:
  "frame_module (select_module_frame a 1) = 1"
  "frame_module (select_module_frame a 2) = 2"
  "frame_module (select_module_frame a 3) = 3"
  by (simp_all add: frame_module_select)

lemma frame_address_ext:
  assumes "(e::u8) \<le> 15"
  shows "frame_address (select_module_frame (ucast e) 2) = e"
proof -
  from assms have "e \<in> {0, 1, 2, 3, 4, 5, 6, 7, 8, 9, 10, 11, 12, 13, 14, 15}"
    by (rule u8_le_15_cases)
  then show ?thesis
    apply (simp only: insert_iff empty_iff)
    apply (elim disjE FalseE)
    apply (simp_all add: select_module_frame_def calculate_parity_def Let_def frame_address_def)
    done
qed

subsection \<open>The payload profile after \<^verbatim>\<open>spi_open\<close>\<close>

lemma mode_readback: "(mode AND NOT 0xFF) OR ucast (ucast mode :: u8) = (mode :: u32)"
proof -
  have m: "(0xFF::u32) = mask 8"
    by (simp add: mask_eq_exp_minus_1)
  show ?thesis unfolding m
    by (rule bit_word_eqI) (auto simp add: bit_simps)
qed

lemma bits_readback: "(ucast (ucast (b::u8) :: u32) :: u8) = b"
  by (rule bit_word_eqI) (auto simp add: bit_simps dest: bit_imp_le_length)

lemma mmio_get_gpio_synced:
  "mmio_get_gpio g s = (r, g', s') \<Longrightarrow> profile_synced s' = profile_synced s"
  by (auto simp: mmio_get_gpio_def Let_def dev_call_def profile_synced_def split: if_splits)

lemma mmio_set_output_synced:
  "mmio_set_output g s = Some s' \<Longrightarrow> profile_synced s' = profile_synced s"
  by (auto simp: mmio_set_output_def mmio_write_def Let_def MMIO_OE_ADDR_def profile_synced_def
      split: option.splits)

lemma profile_synced_pin_update [simp]:
  "profile_synced (s\<lparr>cs_pin := g\<rparr>) = profile_synced s"
  "profile_synced (s\<lparr>ds_pin := g\<rparr>) = profile_synced s"
  by (simp_all add: profile_synced_def)

text \<open>Whatever mode, word size and speed \<^verbatim>\<open>spi_open\<close> is given and whatever the devices
  answer, when it returns the controller is at the profile it recorded.\<close>

lemma spi_open_profile_synced:
  assumes "spi_open device mode bits speed s = Some (f, s')"
  shows "profile_synced s'"
proof -
  define s0 where "s0 = s\<lparr>fd := ret (world s (length (trace s))), hw_mode := ucast mode,
      hw_bits := ucast (ucast bits :: u32), hw_speed := speed,
      trace := trace s @ [DevOpen device, IoctlWrMode (ucast mode), IoctlRdMode,
        IoctlWrBits (ucast (ucast bits :: u32)), IoctlRdBits, IoctlWrSpeed speed, IoctlRdSpeed],
      cfg_bits := ucast (ucast (ucast bits :: u32) :: u8), cfg_speed := speed,
      cfg_mode := (mode AND NOT 0xFF) OR ucast (ucast mode :: u8)\<rparr>"
  have s0: "profile_synced s0"
    unfolding s0_def profile_synced_def mode_readback bits_readback
    by (simp add: bits_readback)
  obtain rc g1 s1 where g1: "mmio_get_gpio (cs_pin s0) s0 = (rc, g1, s1)"
    by (cases "mmio_get_gpio (cs_pin s0) s0") auto
  obtain rd g2 s2 where
    g2: "mmio_get_gpio (ds_pin (s1\<lparr>cs_pin := g1\<rparr>)) (s1\<lparr>cs_pin := g1\<rparr>) = (rd, g2, s2)"
    by (cases "mmio_get_gpio (ds_pin (s1\<lparr>cs_pin := g1\<rparr>)) (s1\<lparr>cs_pin := g1\<rparr>)") auto
  from assms obtain s3 where
    o1: "mmio_set_output (cs_pin (s2\<lparr>ds_pin := g2\<rparr>)) (s2\<lparr>ds_pin := g2\<rparr>) = Some s3" and
    o2: "mmio_set_output (ds_pin s3) s3 = Some s'"
    using g1 g2
    by (auto simp add: spi_open_def Let_def dev_call_def ioctl_wr_mode_def ioctl_wr_bits_def
        ioctl_wr_speed_def s0_def split: option.splits)
  from mmio_get_gpio_synced [OF g1] s0 have "profile_synced s1" by simp
  with mmio_get_gpio_synced [OF g2] have "profile_synced s2" by simp
  with mmio_set_output_synced [OF o1] have "profile_synced s3" by simp
  with mmio_set_output_synced [OF o2] show ?thesis by simp
qed

text \<open>The operations on the bus keep the controller at the recorded payload profile.\<close>

lemma profile_synced_kept:
  assumes "pin_ok (ds_pin s)" and "pin_ok (cs_pin s)" and "profile_synced s"
  shows "map_option (profile_synced \<circ> snd) (select_module a m s) = Some True"
    and "map_option (\<lambda>(r, rx', s'). profile_synced s') (read_data a rx len s) = Some True"
    and "map_option (profile_synced \<circ> snd) (write_data a d len s) = Some True"
    and "profile_synced (snd (snd (spi_transfer tx rx len s)))"
  using assms
  by (simp_all add: read_data_def write_data_def select_module_run spi_transfer_run
      enter_module_profile_eq leave_module_profile_eq dev_call_def Let_def
      mmio_set_high_ok mmio_set_low_ok profile_synced_def)

text \<open>The state \<open>demo\<close> is the one the three calls reach from the start of the process.\<close>

lemma demo_reachable:
  "(case spi_open ''/dev/spidev1.0'' 0 16 1000000 (boot all_ok) of None \<Rightarrow> None
    | Some (f, s) \<Rightarrow>
        (case configure_mux s of None \<Rightarrow> None
         | Some (r, s) \<Rightarrow> Some (f, r, set_ext_addr 3 s))) = Some (3, 0, 0, demo)"
  by (simp add: spi_open_def boot_def all_ok_def dev_call_def ioctl_wr_mode_def
      ioctl_wr_bits_def ioctl_wr_speed_def mmio_get_gpio_def c_div_def c_mod_def P9_14_def
      P9_15_def P9_16_def P9_17_def Let_def mmio_set_output_def pin_mask_def mmio_write_def
      MMIO_OE_ADDR_def gpio_addresses_def configure_mux_def MMIO_SUCCESS_def set_ext_addr_def
      demo_def fun_eq_iff)

subsection \<open>The frame of the extender protocol\<close>

text \<open>
  Claim C1. For every board address in 1..15 and every module in 0..7 the byte that
  \<^verbatim>\<open>select_module\<close> builds is \<open>((parity * 16 + address) * 8) + module\<close>, where \<open>parity\<close> is
  the even-parity bit of the address: bit 7 of the frame is that parity bit, the next
  four bits are the address and the low three bits are the module. The parity that the
  code folds out of the address is the even-parity bit of its low four bits.
\<close>

theorem select_module_frame_layout:
  assumes "1 \<le> a" and "a \<le> 15" and "m \<le> 7"
  shows "unat (select_module_frame a m) = (even_parity4 (unat a) * 16 + unat a) * 8 + unat m \<and>
         frame_parity (select_module_frame a m) = (even_parity4 (unat a) = 1) \<and>
         ucast (frame_address (select_module_frame a m)) = a \<and>
         ucast (frame_module (select_module_frame a m)) = m \<and>
         unat (calculate_parity a) = even_parity4 (unat a)"
proof -
  from assms(2) have a: "a \<in> {0, 1, 2, 3, 4, 5, 6, 7, 8, 9, 10, 11, 12, 13, 14, 15}"
    by (rule u32_le_15_cases)
  from assms(3) have m: "m \<in> {0, 1, 2, 3, 4, 5, 6, 7}"
    by (rule u32_le_7_cases)
  from a m assms(1) show ?thesis
    apply (simp only: insert_iff empty_iff)
    apply (elim disjE FalseE)
    apply (simp_all add: select_module_frame_def calculate_parity_def even_parity4_def
        frame_parity_def frame_address_def frame_module_def Let_def)
    done
qed

theorem select_module_frame_layout_witness:
  "(1::u32) \<le> 11 \<and> (11::u32) \<le> 15 \<and> (5::u32) \<le> 7 \<and>
   select_module_frame 11 5 = 0xDD \<and> unat (select_module_frame 11 5) = (1 * 16 + 11) * 8 + 5 \<and>
   frame_parity (select_module_frame 11 5) \<and> even_parity4 11 = 1 \<and>
   frame_address (select_module_frame 11 5) = 11 \<and>
   frame_module (select_module_frame 11 5) = 5"
  using select_module_frame_layout [of 11 5]
  by (simp add: select_module_frame_def calculate_parity_def even_parity4_def
      frame_parity_def frame_address_def frame_module_def)

subsection \<open>Pin resolution\<close>

text \<open>The pins whose bank index or bit offset is out of range are the negative ones and
  those above 127.\<close>

lemma c_div_mod_32_range:
  "(c_div p 32 < 0 \<or> 3 < c_div p 32 \<or> c_mod p 32 < 0 \<or> 31 < c_mod p 32) = (p < 0 \<or> 127 < p)"
proof (cases "p < 0")
  case True
  then have d: "c_div p 32 = - ((- p) div 32)"
    by (simp add: c_div_def sgn_if)
  have m: "c_mod p 32 = - ((- p) mod 32)"
    unfolding c_mod_def d by (simp add: minus_mod_eq_mult_div [symmetric] algebra_simps)
  from True show ?thesis unfolding d m by auto
next
  case False
  then have d: "c_div p 32 = p div 32"
    by (cases "p = 0") (simp_all add: c_div_def sgn_if)
  have m: "c_mod p 32 = p mod 32"
    unfolding c_mod_def d by (simp add: minus_mult_div_eq_mod)
  from False show ?thesis unfolding d m by auto
qed

text \<open>
  Claim C9. For every pin number whose bank index \<open>pin / 32\<close> is outside 0..3 or whose
  bit offset \<open>pin % 32\<close> is outside 0..31, \<^verbatim>\<open>mmio_get_gpio\<close> returns the invalid-argument
  error and leaves the pin structure and the whole state as they were: nothing is added
  to the trace (the memory device is not opened and no mapping is made) and the bank
  cache is unchanged.
\<close>

theorem mmio_get_gpio_invalid_pin:
  assumes "c_div (pin g) 32 < 0 \<or> 3 < c_div (pin g) 32 \<or>
           c_mod (pin g) 32 < 0 \<or> 31 < c_mod (pin g) 32"
  shows "mmio_get_gpio g s = (MMIO_ERROR_ARGUMENT, g, s) \<and>
         trace (snd (snd (mmio_get_gpio g s))) = trace s \<and>
         gpio_base (snd (snd (mmio_get_gpio g s))) = gpio_base s"
  using assms by (auto simp: mmio_get_gpio_def Let_def)

theorem mmio_get_gpio_invalid_pin_witness:
  "(c_div 128 32 < 0 \<or> 3 < c_div 128 32 \<or> c_mod 128 32 < 0 \<or> 31 < c_mod 128 32) \<and>
   mmio_get_gpio \<lparr>pin = 128, base = None, number = 0\<rparr> (boot all_ok) =
     (- 1, \<lparr>pin = 128, base = None, number = 0\<rparr>, boot all_ok) \<and>
   (c_div (- 1) 32 < 0 \<or> 3 < c_div (- 1) 32 \<or> c_mod (- 1) 32 < 0 \<or> 31 < c_mod (- 1) 32) \<and>
   mmio_get_gpio \<lparr>pin = - 1, base = None, number = 0\<rparr> (boot all_ok) =
     (- 1, \<lparr>pin = - 1, base = None, number = 0\<rparr>, boot all_ok)"
  using mmio_get_gpio_invalid_pin [of "\<lparr>pin = 128, base = None, number = 0\<rparr>" "boot all_ok"]
    mmio_get_gpio_invalid_pin [of "\<lparr>pin = - 1, base = None, number = 0\<rparr>" "boot all_ok"]
  by (simp add: c_div_def c_mod_def MMIO_ERROR_ARGUMENT_def)

subsection \<open>The extender board address\<close>

text \<open>
  Claim C10. \<^verbatim>\<open>set_ext_addr\<close> is atomic on error: for an address that is 0 or greater than
  15 it returns -1 and the state, the stored extender address with it, is unchanged; for
  an address in 1..15 it returns 0 and stores the address, changing nothing else.
\<close>

theorem set_ext_addr_atomic:
  "(addr = 0 \<or> 15 < addr \<longrightarrow> set_ext_addr addr s = (- 1, s)) \<and>
   (1 \<le> addr \<and> addr \<le> 15 \<longrightarrow> set_ext_addr addr s = (0, s\<lparr>ext_addr := addr\<rparr>))"
  by (auto simp: set_ext_addr_def word_le_nat_alt word_less_nat_alt unat_eq_0)

theorem set_ext_addr_atomic_witness:
  "set_ext_addr 0 demo = (- 1, demo) \<and> set_ext_addr 16 demo = (- 1, demo) \<and>
   ext_addr (snd (set_ext_addr 255 demo)) = 3 \<and>
   set_ext_addr 9 demo = (0, demo\<lparr>ext_addr := 9\<rparr>)"
  using set_ext_addr_atomic [of 0 demo] set_ext_addr_atomic [of 16 demo]
    set_ext_addr_atomic [of 255 demo] set_ext_addr_atomic [of 9 demo]
  by (simp add: demo_def)

subsection \<open>Extended-module selection and its address check\<close>

text \<open>
  Claim C2, as stated, fails: \<^verbatim>\<open>select_module\<close> has no check of the board address. In the
  configured process, where every system call succeeds, the calls with board address 0
  and with board address 16 return 0 and each makes one bus transfer, of the frames
  \<open>0x05\<close> and \<open>0x85\<close>.
\<close>

theorem select_module_unchecked_address_counterexample:
  "map_option fst (select_module 0 5 demo) = Some 0 \<and>
   map_option (filter is_transfer \<circ> trace \<circ> snd) (select_module 0 5 demo) =
     Some [IoctlMessage 1 [0x05] 8] \<and>
   map_option fst (select_module 16 5 demo) = Some 0 \<and>
   map_option (filter is_transfer \<circ> trace \<circ> snd) (select_module 16 5 demo) =
     Some [IoctlMessage 1 [0x85] 8]"
  by (simp add: select_module_run pin_ok_def demo_def all_ok_def select_module_frame_def
      calculate_parity_def mod_bits_def)

text \<open>
  Claim C2, amended. \<^verbatim>\<open>select_module\<close> does not validate the board address: for every
  address and module value it makes exactly one bus transfer, of the frame built from
  them, and returns the status of that transfer. The rejection of the addresses 0 and
  above 15 is made where the address is configured: \<^verbatim>\<open>set_ext_addr\<close> returns -1 for them
  and leaves the whole state, the trace with it, unchanged, so no bus transfer is made.
\<close>

theorem select_module_no_address_check:
  assumes "pin_ok (ds_pin s)"
  shows "map_option fst (select_module address module s) =
           Some (if ret (world s (Suc (length (trace s) + length (enter_events s)))) < 0
                 then - 1 else 0) \<and>
         map_option (trace \<circ> snd) (select_module address module s) =
           Some (trace s @ mod_comm_events s [select_module_frame address module]) \<and>
         filter is_transfer (mod_comm_events s [select_module_frame address module]) =
           [IoctlMessage 1 [select_module_frame address module] mod_bits] \<and>
         (addr = 0 \<or> 15 < addr \<longrightarrow> set_ext_addr addr s = (- 1, s))"
  using assms by (simp add: select_module_run set_ext_addr_def)

theorem select_module_no_address_check_witness:
  "pin_ok (ds_pin demo) \<and>
   map_option fst (select_module 0 5 demo) = Some 0 \<and>
   map_option (trace \<circ> snd) (select_module 0 5 demo) =
     Some (trace demo @
       [IoctlWrMode 3, IoctlWrBits 8, MmioWrite 1 0x190 0x40000, IoctlMessage 1 [0x05] 8,
        MmioWrite 1 0x194 0x40000, IoctlWrMode 0, IoctlWrBits 16]) \<and>
   set_ext_addr 0 demo = (- 1, demo)"
  using select_module_no_address_check [of demo 0 5 0]
  by (simp add: demo_def all_ok_def pin_ok_def enter_events_def leave_events_def
      mod_comm_events_def set_low_event_def set_high_event_def pin_bank_def pin_bit_def
      SPI_MODE_3_def mod_bits_def MMIO_GPIO_CLEARDATAOUT_def MMIO_GPIO_SETDATAOUT_def
      select_module_frame_def calculate_parity_def)

subsection \<open>The module-profile scope\<close>

text \<open>
  Claim C3. Whatever payload profile (mode and bits per word) is active and whatever the
  outcome of the bracketed transfer, after \<^verbatim>\<open>spi_mod_comm\<close> returns the controller is at
  the mode and the bits per word it was at before the call. The result is -1 when the
  transfer failed and 0 otherwise, and in both cases the events of the call end with the
  ioctls that write the payload profile back. The state is one in which the \<^verbatim>\<open>ds_pin\<close> is
  resolved and the controller is at the payload profile that \<^verbatim>\<open>spi_open\<close> recorded, which
  is what \<^verbatim>\<open>spi_open\<close> establishes (\<open>spi_open_profile_synced\<close>).
\<close>

theorem spi_mod_comm_restores_profile:
  assumes "pin_ok (ds_pin s)" and "profile_synced s"
  shows "map_option (\<lambda>(rc, rx', s'). (hw_mode s', hw_bits s', profile_synced s'))
           (spi_mod_comm tx rx len s) = Some (hw_mode s, hw_bits s, True) \<and>
         map_option fst (spi_mod_comm tx rx len s) =
           Some (if ret (world s (Suc (length (trace s) + length (enter_events s)))) < 0
                 then - 1 else 0) \<and>
         map_option (\<lambda>(rc, rx', s'). trace s') (spi_mod_comm tx rx len s) =
           Some (trace s @ enter_events s @
             [set_low_event (ds_pin s), IoctlMessage 1 (take (nat len) tx) mod_bits,
              set_high_event (ds_pin s)] @
             leave_events s)"
  using assms by (simp add: spi_mod_comm_run profile_synced_def mod_comm_events_def)

theorem spi_mod_comm_restores_profile_witness:
  "pin_ok (ds_pin (demo\<lparr>world := all_fail\<rparr>)) \<and> profile_synced (demo\<lparr>world := all_fail\<rparr>) \<and>
   hw_mode demo = 0 \<and> hw_bits demo = 16 \<and>
   map_option (\<lambda>(rc, rx', s'). (rc, hw_mode s', hw_bits s'))
     (spi_mod_comm [0x1A] [0] 1 (demo\<lparr>world := all_fail\<rparr>)) = Some (- 1, 0, 16) \<and>
   map_option (\<lambda>(rc, rx', s'). trace s')
     (spi_mod_comm [0x1A] [0] 1 (demo\<lparr>world := all_fail\<rparr>)) =
     Some (trace demo @
       [IoctlWrMode 3, IoctlWrBits 8, MmioWrite 1 0x190 0x40000, IoctlMessage 1 [0x1A] 8,
        MmioWrite 1 0x194 0x40000, IoctlWrMode 0, IoctlWrBits 16])"
  using spi_mod_comm_restores_profile [of "demo\<lparr>world := all_fail\<rparr>" "[0x1A]" "[0]" 1]
  by (auto simp add: demo_def all_fail_def pin_ok_def profile_synced_def rx_after_def
      enter_events_def mod_comm_events_def leave_events_def set_low_event_def
      set_high_event_def pin_bank_def pin_bit_def SPI_MODE_3_def mod_bits_def
      MMIO_GPIO_CLEARDATAOUT_def MMIO_GPIO_SETDATAOUT_def)

subsection \<open>Payload reads and writes through the extender\<close>

text \<open>
  Claim C6. \<^verbatim>\<open>read_data\<close> sends the control frame that selects module 2, makes one dummy
  transfer of one byte, sends the control frame that selects module 3, makes a second
  dummy transfer of one byte, and only then reads the payload; \<^verbatim>\<open>write_data\<close> first sends
  the control frame that selects module 1. Neither does anything else on the bus. The
  second dummy transfer sends what the first one received, the two sharing a buffer.
\<close>

theorem read_write_data_priming:
  assumes "pin_ok (ds_pin s)" and "pin_ok (cs_pin s)"
  shows "map_option (\<lambda>(r, rx', s'). trace s') (read_data address rx len s) =
           Some (trace s @
             mod_comm_events s [select_module_frame address 2] @
             [IoctlMessage 1 [0] (cfg_bits s)] @
             mod_comm_events s [select_module_frame address 3] @
             [IoctlMessage 1
                (take 1 (rx_after (world s (length (trace s) +
                   length (mod_comm_events s [select_module_frame address 2]))) 1 [0]))
                (cfg_bits s)] @
             enter_events s @ [FdRead len] @ leave_events s) \<and>
         frame_module (select_module_frame address 2) = 2 \<and>
         frame_module (select_module_frame address 3) = 3 \<and>
         map_option (trace \<circ> snd) (write_data address data len s) =
           Some (trace s @
             mod_comm_events s [select_module_frame address 1] @
             enter_events s @
             [set_high_event (cs_pin s), set_low_event (cs_pin s), set_high_event (cs_pin s),
              FdWrite (take (nat len) data), set_low_event (cs_pin s)] @
             leave_events s) \<and>
         frame_module (select_module_frame address 1) = 1"
  using assms
  by (simp add: read_data_def write_data_def select_module_run spi_transfer_run
      enter_module_profile_eq leave_module_profile_eq dev_call_def Let_def frame_module_123
      mmio_set_high_ok mmio_set_low_ok)

theorem read_write_data_priming_witness:
  "pin_ok (ds_pin demo) \<and> pin_ok (cs_pin demo) \<and>
   map_option (\<lambda>(r, rx', s'). filter is_transfer (drop (length (trace demo)) (trace s')))
     (read_data 3 [0, 0] 2 demo) =
     Some [IoctlMessage 1 [0x1A] 8, IoctlMessage 1 [0] 16, IoctlMessage 1 [0x1B] 8,
           IoctlMessage 1 [0x55] 16, FdRead 2] \<and>
   frame_module 0x1A = 2 \<and> frame_module 0x1B = 3 \<and>
   map_option (filter is_transfer \<circ> drop (length (trace demo)) \<circ> trace \<circ> snd)
     (write_data 3 [1, 2, 3] 2 demo) =
     Some [IoctlMessage 1 [0x19] 8, FdWrite [1, 2]] \<and>
   frame_module 0x19 = 1"
  using read_write_data_priming [of demo 3 "[0, 0]" 2 "[1, 2, 3]"]
  by (auto simp add: demo_def all_ok_def pin_ok_def rx_after_def
      enter_events_def mod_comm_events_def leave_events_def set_low_event_def
      set_high_event_def pin_bank_def pin_bit_def SPI_MODE_3_def mod_bits_def
      MMIO_GPIO_CLEARDATAOUT_def MMIO_GPIO_SETDATAOUT_def select_module_frame_def
      calculate_parity_def frame_module_def)

subsection \<open>Channel routing\<close>

text \<open>
  Claim C5. Routing to a channel identity whose extender id is negative (-1 in
  particular) makes exactly two register writes and no bus transfer: it raises or lowers
  the data-out bit of P9_15 (bit 16 of bank 1) after bit 0 of the direct-mux id and the
  data-out bit of P9_16 (bit 19 of bank 1) after bit 1. For the direct-mux id 2 that is
  pin 0 low and pin 1 high.
\<close>

theorem route_direct_only:
  assumes "mux_ready s" and "sint (ext_mux_id ident) < 0"
  shows "map_option trace (route ident s) =
           Some (trace s @
             [MmioWrite 1 (if bit (mux_id ident) 0 then MMIO_GPIO_SETDATAOUT
                           else MMIO_GPIO_CLEARDATAOUT) 0x10000,
              MmioWrite 1 (if bit (mux_id ident) 1 then MMIO_GPIO_SETDATAOUT
                           else MMIO_GPIO_CLEARDATAOUT) 0x80000]) \<and>
         map_option (\<lambda>s'. (bit (dataout s' 1) 16, bit (dataout s' 1) 19)) (route ident s) =
           Some (bit (mux_id ident) 0, bit (mux_id ident) 1) \<and>
         map_option (\<lambda>s'. filter is_transfer (drop (length (trace s)) (trace s')))
           (route ident s) = Some []"
  using assms
  by (simp add: route_def direct_mux_run mux_ready_def pin_ok_def pin_bank_def pin_bit_def
      set_high_event_def set_low_event_def Let_def bit_simps)

theorem route_direct_only_witness:
  "mux_ready demo \<and> sint (- 1 :: u8) < 0 \<and>
   map_option trace (route \<lparr>mux_id = 2, ext_mux_id = - 1, ident_fd = 3\<rparr> demo) =
     Some (trace demo @ [MmioWrite 1 0x190 0x10000, MmioWrite 1 0x194 0x80000]) \<and>
   map_option (\<lambda>s'. (bit (dataout s' 1) 16, bit (dataout s' 1) 19))
     (route \<lparr>mux_id = 2, ext_mux_id = - 1, ident_fd = 3\<rparr> demo) = Some (False, True) \<and>
   map_option (\<lambda>s'. filter is_transfer (drop (length (trace demo)) (trace s')))
     (route \<lparr>mux_id = 2, ext_mux_id = - 1, ident_fd = 3\<rparr> demo) = Some []"
  using route_direct_only [of demo "\<lparr>mux_id = 2, ext_mux_id = - 1, ident_fd = 3\<rparr>"]
  by (simp add: demo_def mux_ready_def MMIO_GPIO_CLEARDATAOUT_def MMIO_GPIO_SETDATAOUT_def)

text \<open>
  Claim C4, as stated, fails: \<^verbatim>\<open>direct_ext_mux\<close> always selects module 2 and then sends
  the extender id as a payload byte. In the configured process (board address 3),
  routing to direct-mux id 0 and extender id 5 makes two bus transfers; the control
  frame \<open>0x1A\<close> reads back as module 2 and board address 3, not as module 5, and the
  second transfer carries the byte 5.
\<close>

theorem route_extender_counterexample:
  "map_option (filter is_transfer \<circ> trace)
     (route \<lparr>mux_id = 0, ext_mux_id = 5, ident_fd = 3\<rparr> demo) =
     Some [IoctlMessage 1 [0x1A] 8, IoctlMessage 1 [5] 16] \<and>
   frame_module 0x1A = 2 \<and> frame_address 0x1A = 3 \<and> ext_addr demo = 3"
  by (simp add: route_def direct_mux_def mmio_set_low_def mmio_set_high_def pin_mask_def
      mmio_write_def direct_ext_mux_def select_module_def spi_mod_comm_def spi_transfer_def
      dev_call_def enter_module_profile_def leave_module_profile_def ioctl_wr_mode_def
      ioctl_wr_bits_def select_module_frame_def calculate_parity_def demo_def all_ok_def
      Let_def rx_after_def MMIO_OE_ADDR_def MMIO_GPIO_SETDATAOUT_def
      MMIO_GPIO_CLEARDATAOUT_def MMIO_GPIO_DATAOUT_def SPI_MODE_3_def mod_mode_def
      mod_bits_def frame_module_def frame_address_def)

text \<open>
  Claim C4, amended. Routing to a channel identity with direct-mux id 0 and extender id 5
  lowers the two mux pins, then makes exactly one control transfer, whose frame reads
  back as module 2 and as the configured extender board address (one of 1..15), and
  then one transfer at the payload profile that carries the single byte 5, the extender
  id.
\<close>

theorem route_extender_selects_module_2:
  assumes "mux_ready s" and "pin_ok (ds_pin s)" and "1 \<le> ext_addr s" and "ext_addr s \<le> 15"
    and "mux_id ident = 0" and "ext_mux_id ident = 5"
  shows "map_option trace (route ident s) =
           Some (trace s @
             [MmioWrite 1 MMIO_GPIO_CLEARDATAOUT 0x10000,
              MmioWrite 1 MMIO_GPIO_CLEARDATAOUT 0x80000] @
             mod_comm_events s [select_module_frame (ucast (ext_addr s)) 2] @
             [IoctlMessage 1 [5] (cfg_bits s)]) \<and>
         map_option (\<lambda>s'. filter is_transfer (drop (length (trace s)) (trace s')))
           (route ident s) =
           Some [IoctlMessage 1 [select_module_frame (ucast (ext_addr s)) 2] mod_bits,
                 IoctlMessage 1 [5] (cfg_bits s)] \<and>
         frame_module (select_module_frame (ucast (ext_addr s)) 2) = 2 \<and>
         frame_address (select_module_frame (ucast (ext_addr s)) 2) = ext_addr s"
  using assms
  by (simp add: route_def direct_mux_run direct_ext_mux_def select_module_run spi_transfer_run
      mux_ready_def pin_ok_def pin_bank_def pin_bit_def set_high_event_def set_low_event_def
      Let_def frame_module_123 frame_address_ext)

theorem route_extender_selects_module_2_witness:
  "mux_ready demo \<and> pin_ok (ds_pin demo) \<and> 1 \<le> ext_addr demo \<and> ext_addr demo \<le> 15 \<and>
   map_option trace (route \<lparr>mux_id = 0, ext_mux_id = 5, ident_fd = 3\<rparr> demo) =
     Some (trace demo @
       [MmioWrite 1 0x190 0x10000, MmioWrite 1 0x190 0x80000,
        IoctlWrMode 3, IoctlWrBits 8, MmioWrite 1 0x190 0x40000, IoctlMessage 1 [0x1A] 8,
        MmioWrite 1 0x194 0x40000, IoctlWrMode 0, IoctlWrBits 16,
        IoctlMessage 1 [5] 16]) \<and>
   select_module_frame (ucast (ext_addr demo)) 2 = 0x1A"
  using route_extender_selects_module_2 [of demo "\<lparr>mux_id = 0, ext_mux_id = 5, ident_fd = 3\<rparr>"]
  by (simp add: demo_def mux_ready_def pin_ok_def enter_events_def leave_events_def
      mod_comm_events_def set_low_event_def set_high_event_def pin_bank_def pin_bit_def
      SPI_MODE_3_def mod_bits_def MMIO_GPIO_CLEARDATAOUT_def MMIO_GPIO_SETDATAOUT_def
      select_module_frame_def calculate_parity_def)

subsection \<open>Configuration of the direct demultiplexer\<close>

lemma configure_mux_configured:
  "pins_configured s \<noteq> 0 \<Longrightarrow> configure_mux s = Some (0, s)"
  by (simp add: configure_mux_def)

lemma configure_mux_success_flag:
  "configure_mux s = Some (0, s') \<Longrightarrow> pins_configured s' \<noteq> 0"
  by (auto simp: configure_mux_def Let_def split: if_splits prod.splits option.splits)

lemma get_gpio_mux0_fresh:
  "mmio_get_gpio \<lparr>pin = P9_15, base = None, number = 0\<rparr> s =
     (if gpio_base s 1 then (0, \<lparr>pin = 0, base = Some 1, number = 16\<rparr>, s)
      else if ret (world s (length (trace s))) = - 1
        then (- 2, \<lparr>pin = P9_15, base = None, number = 0\<rparr>,
              s\<lparr>trace := trace s @ [DevMemOpen]\<rparr>)
      else if ret (world s (Suc (length (trace s)))) = - 1
        then (- 3, \<lparr>pin = P9_15, base = None, number = 0\<rparr>,
              s\<lparr>trace := trace s @ [DevMemOpen, Mmap 1 0x4804C000]\<rparr>)
      else (0, \<lparr>pin = 0, base = Some 1, number = 16\<rparr>,
            s\<lparr>gpio_base := (gpio_base s)(1 := True),
              trace := trace s @ [DevMemOpen, Mmap 1 0x4804C000]\<rparr>))"
  by (simp add: mmio_get_gpio_def P9_15_def c_div_def c_mod_def Let_def dev_call_def
      gpio_addresses_def MMIO_SUCCESS_def MMIO_ERROR_DEVMEM_def MMIO_ERROR_MMAP_def)

lemma get_gpio_mux1_mapped:
  "gpio_base s 1 \<Longrightarrow> mmio_get_gpio \<lparr>pin = P9_16, base = None, number = 0\<rparr> s =
     (0, \<lparr>pin = 0, base = Some 1, number = 19\<rparr>, s)"
  by (simp add: mmio_get_gpio_def P9_16_def c_div_def c_mod_def Let_def MMIO_SUCCESS_def)

lemma set_output_unresolved: "base g = None \<Longrightarrow> mmio_set_output g s = None"
  by (simp add: mmio_set_output_def)

lemma set_output_mux0:
  "mmio_set_output \<lparr>pin = 0, base = Some 1, number = 16\<rparr> s =
     Some (s\<lparr>oe := (oe s)(1 := oe s 1 AND 0xFFFEFFFF),
             trace := trace s @ [MmioWrite 1 MMIO_OE_ADDR (oe s 1 AND 0xFFFEFFFF)]\<rparr>)"
  by (simp add: mmio_set_output_def pin_mask_def mmio_write_def Let_def)

text \<open>
  \<^verbatim>\<open>configure_mux\<close> in a process that has not configured the mux yet. It either ends the
  process, when bank 1 is not mapped and cannot be mapped (\<^verbatim>\<open>bbb_mmio_set_output\<close> then
  writes through the NULL base of \<^verbatim>\<open>mux0\<close>), or succeeds. Both writes to the
  output-enable register clear bit 16, the bit of \<^verbatim>\<open>mux0\<close>.
\<close>

lemma configure_mux_fresh:
  assumes "mux_fresh s" and "pins_configured s = 0"
  shows "configure_mux s =
     (if gpio_base s 1 then
        Some (0, s\<lparr>mux0 := \<lparr>pin = 0, base = Some 1, number = 16\<rparr>,
                   mux1 := \<lparr>pin = 0, base = Some 1, number = 19\<rparr>,
                   pins_configured := 1,
                   oe := (oe s)(1 := oe s 1 AND 0xFFFEFFFF),
                   trace := trace s @ [MmioWrite 1 MMIO_OE_ADDR (oe s 1 AND 0xFFFEFFFF),
                                       MmioWrite 1 MMIO_OE_ADDR (oe s 1 AND 0xFFFEFFFF)]\<rparr>)
      else if ret (world s (length (trace s))) = - 1 \<or>
              ret (world s (Suc (length (trace s)))) = - 1
        then None
      else
        Some (0, s\<lparr>gpio_base := (gpio_base s)(1 := True),
                   mux0 := \<lparr>pin = 0, base = Some 1, number = 16\<rparr>,
                   mux1 := \<lparr>pin = 0, base = Some 1, number = 19\<rparr>,
                   pins_configured := 1,
                   oe := (oe s)(1 := oe s 1 AND 0xFFFEFFFF),
                   trace := trace s @ [DevMemOpen, Mmap 1 0x4804C000,
                                       MmioWrite 1 MMIO_OE_ADDR (oe s 1 AND 0xFFFEFFFF),
                                       MmioWrite 1 MMIO_OE_ADDR (oe s 1 AND 0xFFFEFFFF)]\<rparr>))"
  using assms
  by (simp add: configure_mux_def mux_fresh_def get_gpio_mux0_fresh get_gpio_mux1_mapped
      set_output_unresolved set_output_mux0 Let_def word_bw_assocs del: One_nat_def)

lemma configure_mux_never_sets_mux1:
  assumes "mux_fresh s" and "configure_mux s = Some (r, s')"
  shows "pin_is_output s' 1 19 = pin_is_output s 1 19"
proof (cases "pins_configured s = 0")
  case True
  from assms(2) show ?thesis
    by (auto simp add: configure_mux_fresh [OF assms(1) True] pin_is_output_def bit_simps
        split: if_splits)
next
  case False
  with assms(2) show ?thesis
    by (simp add: configure_mux_configured)
qed

text \<open>
  Claim C7 does not hold of the code. In a process at its start, where the memory device
  opens and the bank maps, \<^verbatim>\<open>configure_mux\<close> returns 0 and sets \<^verbatim>\<open>pins_configured\<close>; P9_15
  (\<^verbatim>\<open>mux0\<close>, bit 16 of bank 1) is an output afterwards, and P9_16 (\<^verbatim>\<open>mux1\<close>, bit 19 of bank 1)
  is still an input: the second call of \<^verbatim>\<open>bbb_mmio_set_output\<close> is given \<^verbatim>\<open>mux0\<close> again. Both
  pins are resolved.
\<close>

theorem configure_mux_leaves_mux1_input:
  "map_option (\<lambda>(r, s'). (r, pins_configured s', mux_ready s',
       pin_is_output s' 1 16, pin_is_output s' 1 19))
     (configure_mux (boot all_ok)) = Some (0, 1, True, True, False) \<and>
   map_option (trace \<circ> snd) (configure_mux (boot all_ok)) =
     Some [DevMemOpen, Mmap 1 0x4804C000, MmioWrite 1 0x134 0xFFFEFFFF,
           MmioWrite 1 0x134 0xFFFEFFFF]"
  by (simp add: configure_mux_fresh mux_fresh_def mux_ready_def boot_def all_ok_def
      pin_is_output_def MMIO_OE_ADDR_def)

text \<open>
  Claim C8. \<^verbatim>\<open>configure_mux\<close> is idempotent and memoized. From a state the process can
  be in (the mux configured, or its pins as initialised), two invocations in a row give
  the result and the state of one. After an invocation that returned 0, an invocation
  returns 0 and leaves the state as it is, the trace with it: it makes no device call,
  and so does every later one.
\<close>

theorem configure_mux_idempotent:
  "(pins_configured s \<noteq> 0 \<or> mux_fresh s \<longrightarrow>
      (case configure_mux s of None \<Rightarrow> None | Some (r, s1) \<Rightarrow> configure_mux s1) =
        configure_mux s) \<and>
   (configure_mux s = Some (0, s') \<longrightarrow> configure_mux s' = Some (0, s'))"
proof (intro conjI impI)
  assume h: "pins_configured s \<noteq> 0 \<or> mux_fresh s"
  show "(case configure_mux s of None \<Rightarrow> None | Some (r, s1) \<Rightarrow> configure_mux s1) =
      configure_mux s"
  proof (cases "pins_configured s = 0")
    case False
    then show ?thesis
      by (simp add: configure_mux_configured)
  next
    case True
    with h have f: "mux_fresh s" by simp
    show ?thesis
      by (simp add: configure_mux_fresh [OF f True] configure_mux_configured)
  qed
next
  assume "configure_mux s = Some (0, s')"
  then have "pins_configured s' \<noteq> 0"
    by (rule configure_mux_success_flag)
  then show "configure_mux s' = Some (0, s')"
    by (rule configure_mux_configured)
qed

theorem configure_mux_idempotent_witness:
  "mux_fresh (boot all_ok) \<and>
   (case configure_mux (boot all_ok) of None \<Rightarrow> None | Some (r, s1) \<Rightarrow> configure_mux s1) =
     configure_mux (boot all_ok) \<and>
   configure_mux (boot all_ok) = Some (0, snd (the (configure_mux (boot all_ok)))) \<and>
   configure_mux (snd (the (configure_mux (boot all_ok)))) =
     Some (0, snd (the (configure_mux (boot all_ok)))) \<and>
   trace (snd (the (configure_mux (boot all_ok)))) =
     [DevMemOpen, Mmap 1 0x4804C000, MmioWrite 1 0x134 0xFFFEFFFF,
      MmioWrite 1 0x134 0xFFFEFFFF]"
  using configure_mux_idempotent [of "boot all_ok" "snd (the (configure_mux (boot all_ok)))"]
  by (simp add: configure_mux_fresh mux_fresh_def boot_def all_ok_def MMIO_OE_ADDR_def)

end
